theory Spec2Isabelle
  imports Complex_Main "HOL-Library.Sublist"
begin

section \<open>The page component (src/app/page.tsx)\<close>

text \<open>
  The \<open>Home\<close> component keeps its state in \<open>useState\<close> cells and changes it from event
  handlers, promise continuations and timer callbacks. The model is a record of the cells
  together with the list of callbacks that are still pending (an awaited analysis, a
  \<open>setTimeout\<close>, a \<open>setInterval\<close>), and one function per handler or callback. Numbers are
  real numbers. JavaScript rounds the result of every arithmetic operation to a double; the
  functions below compute without rounding, except \<open>updateSentiment_rounded\<close>, which takes
  the rounding as a parameter and is the function the update rule of a walk is stated for.
  The cells for
  muting, for the list of microphones and for the mobile navigation bar are left out: no
  function below reads or writes them. The cell \<open>recording\<close> and the two refs of the inline
  recorder are left out as well: \<open>startRecordingInline\<close> and \<open>stopRecordingInline\<close>, the
  only functions that use them, are called from nowhere.
\<close>

datatype stage = Idle | Uploading | Processing | Finished

text \<open>
  A setter may be given an updater function instead of a value. React runs the updater
  either at once, inside the call of the setter, or when it next renders the component,
  which is after the callback that called the setter has returned. An updater that reads a
  variable the callback changes afterwards therefore sees the old value in the first case
  and the new value in the second. The interval callbacks of \<open>animateSegments\<close> and of
  \<open>startProcessing\<close> pass such an updater: it reads \<open>currentIdx\<close>, and the callback
  increments \<open>currentIdx\<close> right after the call of the setter.
\<close>

datatype updater_timing = AtCall | AtRender

fun read_counter :: "updater_timing \<Rightarrow> nat \<Rightarrow> nat" where
  "read_counter AtCall currentIdx = currentIdx"
| "read_counter AtRender currentIdx = currentIdx + 1"

record ServerSegment =
  timeSec :: real
  valence :: real
  arousal :: real
  dominance :: real

text \<open>What the analysis endpoint sends back in the body of a response.\<close>

record analysis =
  segments :: "ServerSegment list"
  genre :: string

record response =
  status :: nat
  data :: analysis

text \<open>
  \<open>axios.post\<close> either gets no response at all, or a response with a status. With the default
  \<open>validateStatus\<close> the promise is rejected for every status outside 200..299.
\<close>

datatype endpoint_reply = NetworkError | HttpResponse response

datatype failure = AxiosError | ApiRequestFailed nat

definition axios_post :: "endpoint_reply \<Rightarrow> failure + response" where
  "axios_post r =
     (case r of
        NetworkError \<Rightarrow> Inl AxiosError
      | HttpResponse resp \<Rightarrow>
          if 200 \<le> status resp \<and> status resp < 300 then Inr resp else Inl AxiosError)"

definition analyzeAudio :: "endpoint_reply \<Rightarrow> failure + analysis" where
  "analyzeAudio r =
     (case axios_post r of
        Inl e \<Rightarrow> Inl e
      | Inr resp \<Rightarrow>
          if status resp \<noteq> 200 then Inl (ApiRequestFailed (status resp))
          else Inr (data resp))"

text \<open>
  A pending callback: \<open>Analysis\<close> is a \<open>processAudio\<close> suspended at its \<open>await\<close>;
  \<open>Timeout segs\<close> is the two-second timer of \<open>processAudio\<close>, which has captured the
  segments; \<open>Interval segs currentIdx\<close> is the interval of \<open>animateSegments\<close> with its
  captured list and its counter.
\<close>

datatype task = Analysis | Timeout "ServerSegment list" | Interval "ServerSegment list" nat

text \<open>
  An element of \<open>animatedSegments\<close> is \<open>None\<close> where JavaScript has \<open>undefined\<close> (an array
  read out of range).
\<close>

record Home =
  stage :: stage
  recordedAudioUrl :: "string option"
  uploadedAudioUrl :: "string option"
  showRecordModal :: bool
  songName :: string
  artistName :: string
  serverSegments :: "ServerSegment list"
  animatedSegments :: "ServerSegment option list"
  predictedGenre :: "string option"
  error :: "string option"
  tasks :: "task list"

definition Home_init :: Home where
  "Home_init =
     \<lparr> stage = Idle, recordedAudioUrl = None, uploadedAudioUrl = None,
       showRecordModal = False, songName = ''Unknown'', artistName = ''Unknown'',
       serverSegments = [], animatedSegments = [], predictedGenre = None, error = None,
       tasks = [] \<rparr>"

record File =
  file_name :: string
  file_type :: string

definition at_index :: "'a list \<Rightarrow> nat \<Rightarrow> 'a option" where
  "at_index xs i = (if i < length xs then Some (xs ! i) else None)"

definition remove_task :: "nat \<Rightarrow> task list \<Rightarrow> task list" where
  "remove_task k ts = take k ts @ drop (Suc k) ts"

subsection \<open>animateSegments\<close>

text \<open>
  One run of the interval callback, for the time at which React runs the updater it passes
  to \<open>setAnimatedSegments\<close>: the element appended is the one at the value of \<open>currentIdx\<close>
  the updater reads. The result is the new state and the counter of the interval, \<open>None\<close>
  once \<open>clearInterval\<close> has been called.
\<close>

definition animateSegments_tick ::
  "updater_timing \<Rightarrow> ServerSegment list \<Rightarrow> nat \<Rightarrow> Home \<Rightarrow> Home \<times> nat option" where
  "animateSegments_tick t segs currentIdx s =
     (let s1 = s\<lparr>animatedSegments :=
                   animatedSegments s @ [at_index segs (read_counter t currentIdx)]\<rparr>;
          currentIdx' = currentIdx + 1
      in if currentIdx' \<ge> length segs then (s1\<lparr>stage := Finished\<rparr>, None)
         else (s1, Some currentIdx'))"

definition animateSegments :: "ServerSegment list \<Rightarrow> Home \<Rightarrow> Home" where
  "animateSegments segs s = s\<lparr>tasks := tasks s @ [Interval segs 0]\<rparr>"

subsection \<open>processAudio\<close>

text \<open>
  \<open>processAudio_start\<close> is the part before the \<open>await\<close>, \<open>processAudio_resume\<close> the part
  after it, for the reply the endpoint gave; \<open>processAudio_timeout\<close> is the timer callback.
\<close>

definition processAudio_start :: "Home \<Rightarrow> Home" where
  "processAudio_start s = s\<lparr>tasks := tasks s @ [Analysis]\<rparr>"

definition processAudio_resume :: "endpoint_reply \<Rightarrow> Home \<Rightarrow> Home" where
  "processAudio_resume r s =
     (case analyzeAudio r of
        Inr b \<Rightarrow>
          s\<lparr>serverSegments := segments b, predictedGenre := Some (genre b), stage := Uploading,
            tasks := tasks s @ [Timeout (segments b)]\<rparr>
      | Inl e \<Rightarrow>
          s\<lparr>error := Some ''There was an error processing your audio. Please try again.''\<rparr>)"

definition processAudio_timeout :: "ServerSegment list \<Rightarrow> Home \<Rightarrow> Home" where
  "processAudio_timeout segs s = animateSegments segs (s\<lparr>stage := Processing\<rparr>)"

subsection \<open>Event handlers\<close>

text \<open>The argument of \<open>handleFileUpload\<close> is \<open>e.target.files\<close>, which may be null.\<close>

definition handleFileUpload :: "File list option \<Rightarrow> Home \<Rightarrow> Home" where
  "handleFileUpload files s =
     (case files of
        None \<Rightarrow> s
      | Some [] \<Rightarrow> s
      | Some (file # rest) \<Rightarrow>
          if \<not> prefix ''audio/'' (file_type file)
          then s\<lparr>error := Some ''Please upload a valid audio file.''\<rparr>
          else processAudio_start
                 (s\<lparr>error := None, songName := file_name file, artistName := ''Unknown''\<rparr>))"

text \<open>The \<open>onstop\<close> handler of the inline recorder, for the object URL it created.\<close>

definition inline_onstop :: "string \<Rightarrow> Home \<Rightarrow> Home" where
  "inline_onstop url s =
     processAudio_start (s\<lparr>recordedAudioUrl := Some url, stage := Uploading\<rparr>)"

text \<open>The \<open>onRecordingComplete\<close> callback given to the record modal.\<close>

definition onRecordingComplete :: "string \<Rightarrow> Home \<Rightarrow> Home" where
  "onRecordingComplete url s =
     processAudio_start
       (s\<lparr>recordedAudioUrl := Some url, showRecordModal := False, stage := Uploading\<rparr>)"

definition resetApp :: "Home \<Rightarrow> Home" where
  "resetApp s =
     s\<lparr>stage := Idle, recordedAudioUrl := None, uploadedAudioUrl := None,
       predictedGenre := None, serverSegments := [], animatedSegments := []\<rparr>"

subsection \<open>The event loop\<close>

datatype event =
    FileUpload "File list option"
  | RecordingComplete string
  | InlineStop string
  | Settle nat endpoint_reply
  | Fire nat updater_timing
  | ResetApp

text \<open>
  \<open>Settle k r\<close> resumes the pending analysis at position \<open>k\<close> with the reply \<open>r\<close>;
  \<open>Fire k t\<close> runs the timer callback at position \<open>k\<close>, and \<open>t\<close> says when React runs the
  updater the callback passes (the callback of a timeout passes none). Neither does
  anything when the position holds no such callback.
\<close>

definition settle :: "nat \<Rightarrow> endpoint_reply \<Rightarrow> Home \<Rightarrow> Home" where
  "settle k r s =
     (case at_index (tasks s) k of
        Some Analysis \<Rightarrow> processAudio_resume r (s\<lparr>tasks := remove_task k (tasks s)\<rparr>)
      | _ \<Rightarrow> s)"

definition fire :: "nat \<Rightarrow> updater_timing \<Rightarrow> Home \<Rightarrow> Home" where
  "fire k t s =
     (case at_index (tasks s) k of
        Some (Timeout segs) \<Rightarrow> processAudio_timeout segs (s\<lparr>tasks := remove_task k (tasks s)\<rparr>)
      | Some (Interval segs currentIdx) \<Rightarrow>
          (case animateSegments_tick t segs currentIdx s of
             (s', None) \<Rightarrow> s'\<lparr>tasks := remove_task k (tasks s')\<rparr>
           | (s', Some currentIdx') \<Rightarrow> s'\<lparr>tasks := (tasks s')[k := Interval segs currentIdx']\<rparr>)
      | _ \<Rightarrow> s)"

fun step :: "event \<Rightarrow> Home \<Rightarrow> Home" where
  "step (FileUpload files) s = handleFileUpload files s"
| "step (RecordingComplete url) s = onRecordingComplete url s"
| "step (InlineStop url) s = inline_onstop url s"
| "step (Settle k r) s = settle k r s"
| "step (Fire k t) s = fire k t s"
| "step ResetApp s = resetApp s"

fun run :: "event list \<Rightarrow> Home \<Rightarrow> Home" where
  "run [] s = s"
| "run (e # es) s = run es (step e s)"

subsection \<open>The order of the stages\<close>


fun stage_rank :: "stage \<Rightarrow> nat" where
  "stage_rank Idle = 0"
| "stage_rank Uploading = 1"
| "stage_rank Processing = 2"
| "stage_rank Finished = 3"



section \<open>The simulated analysis (the variant of the page with client-side random walks)\<close>

text \<open>
  In this variant of \<open>Home\<close> no request is made: twelve segments hold three random walks each,
  an animation frame moves every walk of every unlocked segment, and \<open>startProcessing\<close> locks
  one segment per timer tick. \<open>Math.random()\<close> is a sequence \<open>rnd\<close> of numbers read through a
  cursor, which every function that draws returns advanced. The field \<open>value\<close> of the source
  is \<open>sv_value\<close> here, and the fields of a segment carry the prefix \<open>seg_\<close>.
\<close>

record SentimentValue =
  sv_value :: real
  sv_target :: real
  sv_speed :: real

record SegmentSentiment =
  seg_timeSec :: real
  seg_valence :: SentimentValue
  seg_arousal :: SentimentValue
  seg_dominance :: SentimentValue
  locked :: bool

definition totalSegments :: nat where
  "totalSegments = 12"

definition initial_sentiment :: "(nat \<Rightarrow> real) \<Rightarrow> nat \<Rightarrow> SentimentValue" where
  "initial_sentiment rnd k =
     \<lparr> sv_value = rnd k, sv_target = rnd (k + 1), sv_speed = rnd (k + 2) * 0.005 + 0.002 \<rparr>"

definition initial_segment :: "(nat \<Rightarrow> real) \<Rightarrow> nat \<Rightarrow> SegmentSentiment" where
  "initial_segment rnd i =
     \<lparr> seg_timeSec = real i * 5,
       seg_valence = initial_sentiment rnd (9 * i),
       seg_arousal = initial_sentiment rnd (9 * i + 3),
       seg_dominance = initial_sentiment rnd (9 * i + 6),
       locked = False \<rparr>"

definition initial_segments :: "(nat \<Rightarrow> real) \<Rightarrow> SegmentSentiment list" where
  "initial_segments rnd = map (initial_segment rnd) [0..<totalSegments]"

subsection \<open>The animation frame\<close>

definition updateSentiment :: "(nat \<Rightarrow> real) \<Rightarrow> SentimentValue \<Rightarrow> nat \<Rightarrow> SentimentValue \<times> nat" where
  "updateSentiment rnd sv k =
     (let current = sv_value sv;
          target = sv_target sv;
          speed = sv_speed sv;
          newValue =
            (if current < target
             then (if current + speed \<ge> target then target else current + speed)
             else if current > target
             then (if current - speed \<le> target then target else current - speed)
             else current)
      in if newValue = target
         then (\<lparr> sv_value = newValue, sv_target = rnd k,
                 sv_speed = rnd (k + 1) * 0.005 + 0.002 \<rparr>, k + 2)
         else (sv\<lparr>sv_value := newValue\<rparr>, k))"

definition animate_segment :: "(nat \<Rightarrow> real) \<Rightarrow> SegmentSentiment \<Rightarrow> nat \<Rightarrow> SegmentSentiment \<times> nat" where
  "animate_segment rnd seg k =
     (if locked seg then (seg, k)
      else
        (case updateSentiment rnd (seg_valence seg) k of (v, k1) \<Rightarrow>
         case updateSentiment rnd (seg_arousal seg) k1 of (a, k2) \<Rightarrow>
         case updateSentiment rnd (seg_dominance seg) k2 of (d, k3) \<Rightarrow>
           (seg\<lparr>seg_valence := v, seg_arousal := a, seg_dominance := d\<rparr>, k3)))"

fun animate :: "(nat \<Rightarrow> real) \<Rightarrow> SegmentSentiment list \<Rightarrow> nat \<Rightarrow> SegmentSentiment list \<times> nat" where
  "animate rnd [] k = ([], k)"
| "animate rnd (seg # segs) k =
     (case animate_segment rnd seg k of (seg', k1) \<Rightarrow>
      case animate rnd segs k1 of (segs', k2) \<Rightarrow> (seg' # segs', k2))"

subsection \<open>The update rule in double arithmetic\<close>

text \<open>
  A JavaScript number is a binary64 floating-point number, and the result of an addition,
  subtraction or multiplication is the exact result rounded to the nearest such number.
  \<open>updateSentiment_rounded fl\<close> is the update rule with every arithmetic result, and every
  decimal literal, passed through the rounding \<open>fl\<close>; the comparisons it makes see the rounded
  results. \<open>updateSentiment\<close> above is the instance for arithmetic that does not round.
\<close>

definition updateSentiment_rounded ::
  "(real \<Rightarrow> real) \<Rightarrow> (nat \<Rightarrow> real) \<Rightarrow> SentimentValue \<Rightarrow> nat \<Rightarrow> SentimentValue \<times> nat" where
  "updateSentiment_rounded fl rnd sv k =
     (let current = sv_value sv;
          target = sv_target sv;
          speed = sv_speed sv;
          newValue =
            (if current < target
             then (if fl (current + speed) \<ge> target then target else fl (current + speed))
             else if current > target
             then (if fl (current - speed) \<le> target then target else fl (current - speed))
             else current)
      in if newValue = target
         then (\<lparr> sv_value = newValue, sv_target = rnd k,
                 sv_speed = fl (fl (rnd (k + 1) * fl 0.005) + fl 0.002) \<rparr>, k + 2)
         else (sv\<lparr>sv_value := newValue\<rparr>, k))"

text \<open>
  Rounding to the nearest binary64 number, ties to the number with an even significand.
  \<open>binade n y\<close> is the exponent \<open>e\<close> with \<open>2 ^ e \<le> y < 2 ^ (e + 1)\<close> for a positive \<open>y\<close>,
  found in at most \<open>n\<close> halvings or doublings; the spacing of the binary64 numbers around
  \<open>y\<close> is \<open>2 ^ (e - 52)\<close>, and \<open>2 ^ (- 1074)\<close> below the smallest normal number. Results
  beyond the largest finite number (infinities) are not modelled; the numbers of a
  segment stay far below it.
\<close>

definition pow2 :: "int \<Rightarrow> real" where
  "pow2 e = (if 0 \<le> e then 2 ^ nat e else 1 / 2 ^ nat (- e))"

definition round_half_even :: "real \<Rightarrow> int" where
  "round_half_even r =
     (let f = \<lfloor>r\<rfloor>
      in if r - of_int f < 1 / 2 then f
         else if 1 / 2 < r - of_int f then f + 1
         else if even f then f else f + 1)"

fun binade :: "nat \<Rightarrow> real \<Rightarrow> int" where
  "binade 0 y = 0"
| "binade (Suc n) y =
     (if y < 1 then binade n (2 * y) - 1
      else if 2 \<le> y then binade n (y / 2) + 1
      else 0)"

definition round_double :: "real \<Rightarrow> real" where
  "round_double x =
     (if x = 0 then 0
      else
        (let e = max (binade 2200 \<bar>x\<bar>) (- 1022);
             ulp = pow2 (e - 52)
         in sgn x * of_int (round_half_even (\<bar>x\<bar> / ulp)) * ulp))"

subsection \<open>startProcessing\<close>

definition lock_sentiment :: "SentimentValue \<Rightarrow> SentimentValue" where
  "lock_sentiment sv = sv\<lparr>sv_target := sv_value sv, sv_speed := 0\<rparr>"

definition lock_segment :: "SegmentSentiment \<Rightarrow> SegmentSentiment" where
  "lock_segment seg =
     seg\<lparr>locked := True,
         seg_valence := lock_sentiment (seg_valence seg),
         seg_arousal := lock_sentiment (seg_arousal seg),
         seg_dominance := lock_sentiment (seg_dominance seg)\<rparr>"

definition lock_at :: "nat \<Rightarrow> SegmentSentiment list \<Rightarrow> SegmentSentiment list" where
  "lock_at currentIdx segs =
     map (\<lambda>(i, seg). if i = currentIdx then lock_segment seg else seg) (enumerate 0 segs)"

text \<open>
  The pending callbacks of this variant: the two-second timer set on upload or on the end
  of a recording, the five-second interval of \<open>startProcessing\<close> with its counter, and the
  one-second timer it sets after the last segment. The genre list that timer also draws
  plays no part below and is left out.
\<close>

datatype sim_task = UploadTimer | LockInterval nat | GenreTimer

record Sim =
  sim_stage :: stage
  sim_segments :: "SegmentSentiment list"
  sim_recordedAudioUrl :: "string option"
  sim_uploadedAudioUrl :: "string option"
  sim_error :: "string option"
  sim_tasks :: "sim_task list"
  cursor :: nat

definition Sim_init :: "(nat \<Rightarrow> real) \<Rightarrow> Sim" where
  "Sim_init rnd =
     \<lparr> sim_stage = Idle, sim_segments = initial_segments rnd, sim_recordedAudioUrl = None,
       sim_uploadedAudioUrl = None, sim_error = None, sim_tasks = [],
       cursor = 9 * totalSegments \<rparr>"

definition remove_sim_task :: "nat \<Rightarrow> sim_task list \<Rightarrow> sim_task list" where
  "remove_sim_task k ts = take k ts @ drop (Suc k) ts"

definition startProcessing :: "Sim \<Rightarrow> Sim" where
  "startProcessing s = s\<lparr>sim_tasks := sim_tasks s @ [LockInterval 0]\<rparr>"

text \<open>
  One run of the interval callback of \<open>startProcessing\<close>, the interval being task \<open>k\<close>, for
  the time at which React runs the updater it passes to \<open>setSegments\<close>: the segment locked
  is the one at the value of \<open>currentIdx\<close> the updater reads.
\<close>

definition startProcessing_tick :: "nat \<Rightarrow> updater_timing \<Rightarrow> nat \<Rightarrow> Sim \<Rightarrow> Sim" where
  "startProcessing_tick k t currentIdx s =
     (let s1 = s\<lparr>sim_segments := lock_at (read_counter t currentIdx) (sim_segments s)\<rparr>;
          currentIdx' = currentIdx + 1
      in if currentIdx' = totalSegments
         then s1\<lparr>sim_tasks := remove_sim_task k (sim_tasks s1) @ [GenreTimer]\<rparr>
         else s1\<lparr>sim_tasks := (sim_tasks s1)[k := LockInterval currentIdx']\<rparr>)"

text \<open>The file-upload handler of this variant, for the object URL created for the file.\<close>

definition sim_handleFileUpload :: "File list option \<Rightarrow> string \<Rightarrow> Sim \<Rightarrow> Sim" where
  "sim_handleFileUpload files fileUrl s =
     (case files of
        None \<Rightarrow> s
      | Some [] \<Rightarrow> s
      | Some (file # rest) \<Rightarrow>
          if \<not> prefix ''audio/'' (file_type file)
          then s\<lparr>sim_error := Some ''Please upload a valid audio file.''\<rparr>
          else s\<lparr>sim_error := None, sim_uploadedAudioUrl := Some fileUrl, sim_stage := Uploading,
                 sim_tasks := sim_tasks s @ [UploadTimer]\<rparr>)"

text \<open>
  The \<open>onstop\<close> handler of the inline recorder and the \<open>onRecordingComplete\<close> callback of
  the modal do the same to these cells.
\<close>

definition sim_onstop :: "string \<Rightarrow> Sim \<Rightarrow> Sim" where
  "sim_onstop url s =
     s\<lparr>sim_recordedAudioUrl := Some url, sim_stage := Uploading,
       sim_tasks := sim_tasks s @ [UploadTimer]\<rparr>"

definition sim_fire :: "nat \<Rightarrow> updater_timing \<Rightarrow> Sim \<Rightarrow> Sim" where
  "sim_fire k t s =
     (case at_index (sim_tasks s) k of
        Some UploadTimer \<Rightarrow>
          startProcessing (s\<lparr>sim_tasks := remove_sim_task k (sim_tasks s), sim_stage := Processing\<rparr>)
      | Some (LockInterval currentIdx) \<Rightarrow> startProcessing_tick k t currentIdx s
      | Some GenreTimer \<Rightarrow>
          s\<lparr>sim_tasks := remove_sim_task k (sim_tasks s), sim_stage := Finished\<rparr>
      | None \<Rightarrow> s)"

text \<open>The animation loop is scheduled only while the stage is processing.\<close>

definition sim_frame :: "(nat \<Rightarrow> real) \<Rightarrow> Sim \<Rightarrow> Sim" where
  "sim_frame rnd s =
     (if sim_stage s \<noteq> Processing then s
      else case animate rnd (sim_segments s) (cursor s) of
             (segs', k') \<Rightarrow> s\<lparr>sim_segments := segs', cursor := k'\<rparr>)"

datatype sim_event =
    SimFileUpload "File list option" string
  | SimRecorded string
  | SimFire nat updater_timing
  | SimFrame

fun sim_step :: "(nat \<Rightarrow> real) \<Rightarrow> sim_event \<Rightarrow> Sim \<Rightarrow> Sim" where
  "sim_step rnd (SimFileUpload files fileUrl) s = sim_handleFileUpload files fileUrl s"
| "sim_step rnd (SimRecorded url) s = sim_onstop url s"
| "sim_step rnd (SimFire k t) s = sim_fire k t s"
| "sim_step rnd SimFrame s = sim_frame rnd s"

fun sim_run :: "(nat \<Rightarrow> real) \<Rightarrow> sim_event list \<Rightarrow> Sim \<Rightarrow> Sim" where
  "sim_run rnd [] s = s"
| "sim_run rnd (e # es) s = sim_run rnd es (sim_step rnd e s)"



text \<open>The range the three values of a segment are meant to stay in.\<close>

definition in_unit :: "SentimentValue \<Rightarrow> bool" where
  "in_unit sv \<longleftrightarrow>
     0 \<le> sv_value sv \<and> sv_value sv \<le> 1 \<and> 0 \<le> sv_target sv \<and> sv_target sv \<le> 1 \<and>
     0 \<le> sv_speed sv"

definition segment_in_unit :: "SegmentSentiment \<Rightarrow> bool" where
  "segment_in_unit seg \<longleftrightarrow>
     in_unit (seg_valence seg) \<and> in_unit (seg_arousal seg) \<and> in_unit (seg_dominance seg)"

text \<open>The four numbers of a segment that are shown: its time and its three values.\<close>

definition shown :: "SegmentSentiment \<Rightarrow> real \<times> real \<times> real \<times> real" where
  "shown seg =
     (seg_timeSec seg, sv_value (seg_valence seg), sv_value (seg_arousal seg),
      sv_value (seg_dominance seg))"

section \<open>The smooth closed path (src/app/utils/sentimentHelpers.ts)\<close>

text \<open>
  The fields \<open>x\<close> and \<open>y\<close> of a point are \<open>px\<close> and \<open>py\<close>. A template literal turns a number
  into text by the conversion of the JavaScript runtime, which is the parameter \<open>fmt\<close>.
  The loop body reads four points; inside the loop \<open>i\<close> is below the length, so every index
  read is in range.
\<close>

record point =
  px :: real
  py :: real

definition curve_piece :: "(real \<Rightarrow> string) \<Rightarrow> point list \<Rightarrow> nat \<Rightarrow> string" where
  "curve_piece fmt points i =
     (let p0 = points ! (if i = 0 then length points - 1 else i - 1);
          p1 = points ! i;
          p2 = points ! ((i + 1) mod length points);
          p3 = points ! ((i + 2) mod length points);
          cp1x = px p1 + (px p2 - px p0) * 0.2;
          cp1y = py p1 + (py p2 - py p0) * 0.2;
          cp2x = px p2 - (px p3 - px p1) * 0.2;
          cp2y = py p2 - (py p3 - py p1) * 0.2
      in '' C '' @ fmt cp1x @ '' '' @ fmt cp1y @ '', '' @ fmt cp2x @ '' '' @ fmt cp2y @ '', ''
           @ fmt (px p2) @ '' '' @ fmt (py p2))"

function generateSmoothPath_loop :: "(real \<Rightarrow> string) \<Rightarrow> point list \<Rightarrow> nat \<Rightarrow> string \<Rightarrow> string" where
  "generateSmoothPath_loop fmt points i path =
     (if i < length points
      then generateSmoothPath_loop fmt points (i + 1) (path @ curve_piece fmt points i)
      else path)"
  by pat_completeness auto
termination
  by (relation "measure (\<lambda>(fmt, points, i, path). length points - i)") auto

declare generateSmoothPath_loop.simps [simp del]

definition generateSmoothPath :: "(real \<Rightarrow> string) \<Rightarrow> point list \<Rightarrow> string" where
  "generateSmoothPath fmt points =
     (if length points < 2 then ''''
      else generateSmoothPath_loop fmt points 0
             (''M '' @ fmt (px (points ! 0)) @ '' '' @ fmt (py (points ! 0))) @ '' Z'')"

text \<open>
  What the path is meant to be: one cubic command per point, from the point to its successor
  on the cycle, with the two control points taken from the neighbours on the cycle.
\<close>

definition cyclic :: "point list \<Rightarrow> nat \<Rightarrow> point" where
  "cyclic points j = points ! (j mod length points)"

definition cubic_command :: "(real \<Rightarrow> string) \<Rightarrow> point list \<Rightarrow> nat \<Rightarrow> string" where
  "cubic_command fmt points i =
     (let p0 = cyclic points (i + length points - 1);
          p1 = cyclic points i;
          p2 = cyclic points (i + 1);
          p3 = cyclic points (i + 2)
      in '' C '' @ fmt (px p1 + (px p2 - px p0) * 0.2) @ '' '' @ fmt (py p1 + (py p2 - py p0) * 0.2)
           @ '', '' @ fmt (px p2 - (px p3 - px p1) * 0.2) @ '' '' @ fmt (py p2 - (py p3 - py p1) * 0.2)
           @ '', '' @ fmt (px p2) @ '' '' @ fmt (py p2))"

section \<open>Microphone capture (the record modal)\<close>

text \<open>
  A capture stream is the list of its tracks, each \<open>True\<close> while it is live. The streams
  handed out by \<open>getUserMedia\<close> so far are kept in a store, and a ref holds the position of
  its stream in the store, so that a stream no ref points to any more is still there.
  A ref to a \<open>MediaRecorder\<close> is \<open>True\<close> once a recorder has been stored in it; the call
  of \<open>stop()\<close> on the recorder only schedules its \<open>onstop\<close> handler and does nothing to
  the tracks, so it does not appear in the functions below.

  \<open>startRecording\<close> is asynchronous: it suspends at \<open>await getUserMedia\<close> and goes on when
  the browser answers, which may be after the user has closed the modal. \<open>pending\<close> counts
  the calls that are suspended, \<open>startRecording_call\<close> is the part before the \<open>await\<close> and
  \<open>startRecording_resume\<close> the part after it. \<open>mounted\<close> is false once the modal has been
  unmounted; a setter called after that has no effect.
\<close>

type_synonym MediaStream = "bool list"

datatype getUserMedia_result = Denied | Granted nat

definition stop_tracks :: "nat \<Rightarrow> MediaStream list \<Rightarrow> MediaStream list" where
  "stop_tracks sid store =
     (if sid < length store then store[sid := map (\<lambda>live. False) (store ! sid)] else store)"

record RecordModal =
  isRecording :: bool
  mediaRecorderRef :: bool
  mediaStreamRef :: "nat option"
  pending :: nat
  mounted :: bool

definition RecordModal_init :: RecordModal where
  "RecordModal_init =
     \<lparr> isRecording = False, mediaRecorderRef = False, mediaStreamRef = None, pending = 0,
       mounted = True \<rparr>"

definition startRecording_call ::
  "RecordModal \<times> MediaStream list \<Rightarrow> RecordModal \<times> MediaStream list" where
  "startRecording_call c = (case c of (m, store) \<Rightarrow> (m\<lparr>pending := pending m + 1\<rparr>, store))"

definition startRecording_resume ::
  "getUserMedia_result \<Rightarrow> RecordModal \<times> MediaStream list \<Rightarrow> RecordModal \<times> MediaStream list" where
  "startRecording_resume g c =
     (case c of (m, store) \<Rightarrow>
        (case g of
           Denied \<Rightarrow> (m\<lparr>pending := pending m - 1\<rparr>, store)
         | Granted n \<Rightarrow>
             (m\<lparr>pending := pending m - 1, mediaStreamRef := Some (length store),
                mediaRecorderRef := True,
                isRecording := (if mounted m then True else isRecording m)\<rparr>,
              store @ [replicate n True])))"

definition stopRecording :: "RecordModal \<times> MediaStream list \<Rightarrow> RecordModal \<times> MediaStream list" where
  "stopRecording c =
     (case c of (m, store) \<Rightarrow>
        (m\<lparr>isRecording := False\<rparr>,
         case mediaStreamRef m of None \<Rightarrow> store | Some sid \<Rightarrow> stop_tracks sid store))"

text \<open>The cleanup the modal registers with \<open>useEffect\<close>, run when it is unmounted.\<close>

definition RecordModal_unmount :: "RecordModal \<times> MediaStream list \<Rightarrow> RecordModal \<times> MediaStream list" where
  "RecordModal_unmount c =
     (case c of (m, store) \<Rightarrow>
        (m\<lparr>mounted := False\<rparr>,
         case mediaStreamRef m of None \<Rightarrow> store | Some sid \<Rightarrow> stop_tracks sid store))"

text \<open>
  What can happen to the modal. Its one button starts a recording while none is running and
  stops the running one otherwise; the buttons are there only while the modal is mounted.
  The browser answers a request only while one is pending. The modal is unmounted when the
  user cancels it or clicks its background, and when a recording completes.
\<close>

datatype modal_event = StartClicked | MediaAnswered getUserMedia_result | StopClicked | ModalClosed

fun modal_step ::
  "modal_event \<Rightarrow> RecordModal \<times> MediaStream list \<Rightarrow> RecordModal \<times> MediaStream list" where
  "modal_step StartClicked (m, store) =
     (if mounted m \<and> \<not> isRecording m then startRecording_call (m, store) else (m, store))"
| "modal_step (MediaAnswered g) (m, store) =
     (if 0 < pending m then startRecording_resume g (m, store) else (m, store))"
| "modal_step StopClicked (m, store) =
     (if mounted m \<and> isRecording m then stopRecording (m, store) else (m, store))"
| "modal_step ModalClosed (m, store) =
     (if mounted m then RecordModal_unmount (m, store) else (m, store))"

fun modal_run ::
  "modal_event list \<Rightarrow> RecordModal \<times> MediaStream list \<Rightarrow> RecordModal \<times> MediaStream list" where
  "modal_run [] c = c"
| "modal_run (e # es) c = modal_run es (modal_step e c)"

definition live_tracks :: "MediaStream list \<Rightarrow> nat" where
  "live_tracks store = length (filter (\<lambda>live. live) (concat store))"

section \<open>Facts about the page component\<close>

lemma at_index_simps [simp]:
  "at_index [] k = None"
  "at_index (x # xs) 0 = Some x"
  "at_index (x # xs) (Suc k) = at_index xs k"
  by (simp_all add: at_index_def)

subsection \<open>The order of the stages\<close>






subsection \<open>Uploading a file\<close>

text \<open>
  C2. When the type of the first file of the event does not start with \<open>audio/\<close>,
  \<open>handleFileUpload\<close> sets the error message and changes nothing else: the stage is as it
  was (idle, when the upload control was shown) and no analysis is started. When the type
  does start with \<open>audio/\<close>, the error is cleared and an analysis of the file is started.
\<close>

theorem handleFileUpload_checks_type:
  "(\<not> prefix ''audio/'' (file_type file) \<longrightarrow>
      handleFileUpload (Some (file # rest)) s =
        s\<lparr>error := Some ''Please upload a valid audio file.''\<rparr>
      \<and> stage (handleFileUpload (Some (file # rest)) s) = stage s
      \<and> tasks (handleFileUpload (Some (file # rest)) s) = tasks s)
   \<and> (prefix ''audio/'' (file_type file) \<longrightarrow>
      error (handleFileUpload (Some (file # rest)) s) = None
      \<and> tasks (handleFileUpload (Some (file # rest)) s) = tasks s @ [Analysis]
      \<and> stage (handleFileUpload (Some (file # rest)) s) = stage s)"
  by (simp add: handleFileUpload_def processAudio_start_def)

theorem handleFileUpload_checks_type_witness:
  "\<not> prefix ''audio/'' (file_type \<lparr>file_name = ''notes.txt'', file_type = ''text/plain''\<rparr>)
   \<and> stage (handleFileUpload
        (Some [\<lparr>file_name = ''notes.txt'', file_type = ''text/plain''\<rparr>]) Home_init) = Idle
   \<and> error (handleFileUpload
        (Some [\<lparr>file_name = ''notes.txt'', file_type = ''text/plain''\<rparr>]) Home_init)
       = Some ''Please upload a valid audio file.''
   \<and> tasks (handleFileUpload
        (Some [\<lparr>file_name = ''notes.txt'', file_type = ''text/plain''\<rparr>]) Home_init) = []
   \<and> prefix ''audio/'' (file_type \<lparr>file_name = ''song.mp3'', file_type = ''audio/mpeg''\<rparr>)
   \<and> error (handleFileUpload (Some [\<lparr>file_name = ''song.mp3'', file_type = ''audio/mpeg''\<rparr>])
        (Home_init\<lparr>error := Some ''Please upload a valid audio file.''\<rparr>)) = None
   \<and> tasks (handleFileUpload (Some [\<lparr>file_name = ''song.mp3'', file_type = ''audio/mpeg''\<rparr>])
        (Home_init\<lparr>error := Some ''Please upload a valid audio file.''\<rparr>)) = [Analysis]"
  using handleFileUpload_checks_type
          [of "\<lparr>file_name = ''notes.txt'', file_type = ''text/plain''\<rparr>" "[]" Home_init]
        handleFileUpload_checks_type
          [of "\<lparr>file_name = ''song.mp3'', file_type = ''audio/mpeg''\<rparr>" "[]"
              "Home_init\<lparr>error := Some ''Please upload a valid audio file.''\<rparr>"]
  by (simp add: Home_init_def)

subsection \<open>Resetting\<close>

text \<open>
  C3, at the state reached by offering a file that is not audio: \<open>resetApp\<close> clears the stage,
  the two URLs, the genre and both segment lists, and leaves the error message in place.
\<close>

theorem resetApp_keeps_error:
  "error (resetApp (handleFileUpload
       (Some [\<lparr>file_name = ''notes.txt'', file_type = ''text/plain''\<rparr>]) Home_init))
   = Some ''Please upload a valid audio file.''"
  by (simp add: resetApp_def handleFileUpload_def Home_init_def)

subsection \<open>The analysis request\<close>

text \<open>
  C4. For a response of the endpoint, \<open>analyzeAudio\<close> returns the body exactly when the
  status is 200. For every other status, and when there is no response, \<open>processAudio\<close>
  sets the generic error message and changes nothing else: segments, genre and stage are as
  they were and nothing is scheduled, so there is no retry. For status 200 it stores the
  segments and the genre, sets the stage to uploading and schedules its timer.
\<close>

theorem analyzeAudio_only_200:
  "(analyzeAudio (HttpResponse resp) = Inr b \<longleftrightarrow> status resp = 200 \<and> b = data resp)
   \<and> (status resp \<noteq> 200 \<longrightarrow>
        processAudio_resume (HttpResponse resp) s =
          s\<lparr>error := Some ''There was an error processing your audio. Please try again.''\<rparr>)
   \<and> (status resp = 200 \<longrightarrow>
        processAudio_resume (HttpResponse resp) s =
          s\<lparr>serverSegments := segments (data resp), predictedGenre := Some (genre (data resp)),
            stage := Uploading, tasks := tasks s @ [Timeout (segments (data resp))]\<rparr>)
   \<and> processAudio_resume NetworkError s =
          s\<lparr>error := Some ''There was an error processing your audio. Please try again.''\<rparr>"
  by (auto simp: analyzeAudio_def axios_post_def processAudio_resume_def)

theorem analyzeAudio_only_200_witness:
  "status \<lparr>status = 503, data = \<lparr>segments = [], genre = ''none''\<rparr>\<rparr> \<noteq> 200
   \<and> analyzeAudio (HttpResponse \<lparr>status = 503, data = \<lparr>segments = [], genre = ''none''\<rparr>\<rparr>)
       \<noteq> Inr \<lparr>segments = [], genre = ''none''\<rparr>
   \<and> processAudio_resume (HttpResponse \<lparr>status = 503, data = \<lparr>segments = [], genre = ''none''\<rparr>\<rparr>)
        Home_init =
      Home_init\<lparr>error := Some ''There was an error processing your audio. Please try again.''\<rparr>
   \<and> status \<lparr>status = 200, data = \<lparr>segments = [], genre = ''Jazz''\<rparr>\<rparr> = 200
   \<and> analyzeAudio (HttpResponse \<lparr>status = 200, data = \<lparr>segments = [], genre = ''Jazz''\<rparr>\<rparr>)
       = Inr \<lparr>segments = [], genre = ''Jazz''\<rparr>
   \<and> predictedGenre
        (processAudio_resume (HttpResponse \<lparr>status = 200, data = \<lparr>segments = [], genre = ''Jazz''\<rparr>\<rparr>)
           Home_init) = Some ''Jazz''"
  using analyzeAudio_only_200
          [of "\<lparr>status = 503, data = \<lparr>segments = [], genre = ''none''\<rparr>\<rparr>"
              "\<lparr>segments = [], genre = ''none''\<rparr>" Home_init]
        analyzeAudio_only_200
          [of "\<lparr>status = 200, data = \<lparr>segments = [], genre = ''Jazz''\<rparr>\<rparr>"
              "\<lparr>segments = [], genre = ''Jazz''\<rparr>" Home_init]
  by simp

subsection \<open>animateSegments\<close>

text \<open>
  C10, at a list of three segments. When React runs every updater at the call of the setter,
  the three ticks append the three segments in index order. When the tick with counter 1
  and the one after it have their updaters run at the following render, the second tick
  appends the third segment and the last tick appends an out-of-range element (undefined,
  here \<open>None\<close>); with every updater run at the render the list becomes the second segment,
  the third and an out-of-range element. In each case there are three ticks, the stage is
  finished after the last one and the interval is gone.
\<close>

theorem animateSegments_skips_a_segment:
  "animatedSegments (run [Fire 0 AtCall, Fire 0 AtRender, Fire 0 AtRender]
      (animateSegments
         [\<lparr>timeSec = 0, valence = 1 / 2, arousal = 1 / 4, dominance = 1\<rparr>,
          \<lparr>timeSec = 5, valence = 1 / 3, arousal = 0, dominance = 1 / 2\<rparr>,
          \<lparr>timeSec = 10, valence = 1, arousal = 1 / 5, dominance = 0\<rparr>] Home_init))
     = [Some \<lparr>timeSec = 0, valence = 1 / 2, arousal = 1 / 4, dominance = 1\<rparr>,
        Some \<lparr>timeSec = 10, valence = 1, arousal = 1 / 5, dominance = 0\<rparr>,
        None]
   \<and> animatedSegments (run [Fire 0 AtRender, Fire 0 AtRender, Fire 0 AtRender]
      (animateSegments
         [\<lparr>timeSec = 0, valence = 1 / 2, arousal = 1 / 4, dominance = 1\<rparr>,
          \<lparr>timeSec = 5, valence = 1 / 3, arousal = 0, dominance = 1 / 2\<rparr>,
          \<lparr>timeSec = 10, valence = 1, arousal = 1 / 5, dominance = 0\<rparr>] Home_init))
     = [Some \<lparr>timeSec = 5, valence = 1 / 3, arousal = 0, dominance = 1 / 2\<rparr>,
        Some \<lparr>timeSec = 10, valence = 1, arousal = 1 / 5, dominance = 0\<rparr>,
        None]
   \<and> animatedSegments (run [Fire 0 AtCall, Fire 0 AtCall, Fire 0 AtCall]
      (animateSegments
         [\<lparr>timeSec = 0, valence = 1 / 2, arousal = 1 / 4, dominance = 1\<rparr>,
          \<lparr>timeSec = 5, valence = 1 / 3, arousal = 0, dominance = 1 / 2\<rparr>,
          \<lparr>timeSec = 10, valence = 1, arousal = 1 / 5, dominance = 0\<rparr>] Home_init))
     = [Some \<lparr>timeSec = 0, valence = 1 / 2, arousal = 1 / 4, dominance = 1\<rparr>,
        Some \<lparr>timeSec = 5, valence = 1 / 3, arousal = 0, dominance = 1 / 2\<rparr>,
        Some \<lparr>timeSec = 10, valence = 1, arousal = 1 / 5, dominance = 0\<rparr>]
   \<and> stage (run [Fire 0 AtCall, Fire 0 AtRender]
      (animateSegments
         [\<lparr>timeSec = 0, valence = 1 / 2, arousal = 1 / 4, dominance = 1\<rparr>,
          \<lparr>timeSec = 5, valence = 1 / 3, arousal = 0, dominance = 1 / 2\<rparr>,
          \<lparr>timeSec = 10, valence = 1, arousal = 1 / 5, dominance = 0\<rparr>] Home_init)) = Idle
   \<and> stage (run [Fire 0 AtCall, Fire 0 AtRender, Fire 0 AtRender]
      (animateSegments
         [\<lparr>timeSec = 0, valence = 1 / 2, arousal = 1 / 4, dominance = 1\<rparr>,
          \<lparr>timeSec = 5, valence = 1 / 3, arousal = 0, dominance = 1 / 2\<rparr>,
          \<lparr>timeSec = 10, valence = 1, arousal = 1 / 5, dominance = 0\<rparr>] Home_init)) = Finished
   \<and> tasks (run [Fire 0 AtCall, Fire 0 AtRender, Fire 0 AtRender]
      (animateSegments
         [\<lparr>timeSec = 0, valence = 1 / 2, arousal = 1 / 4, dominance = 1\<rparr>,
          \<lparr>timeSec = 5, valence = 1 / 3, arousal = 0, dominance = 1 / 2\<rparr>,
          \<lparr>timeSec = 10, valence = 1, arousal = 1 / 5, dominance = 0\<rparr>] Home_init)) = []"
  by (simp add: Home_init_def animateSegments_def fire_def animateSegments_tick_def Let_def
      remove_task_def at_index_def)

section \<open>Facts about the simulated analysis\<close>

subsection \<open>One step of a walk\<close>

text \<open>
  C5, as stated, fails in double arithmetic. The walk is at 0.5, its target is the double
  nearest to 0.502025 and its speed the double nearest to 0.0020249999999999995. A step by
  exactly the speed would stay below the target, so by the claim the value moves by the
  speed and nothing is drawn. The double sum of value and speed is the target itself: the
  code sets the value to the target, which is further away than the speed, and draws a
  fresh target and a fresh speed.
\<close>

theorem updateSentiment_double_reaches_target_early:
  "sv_value \<lparr>sv_value = 1 / 2, sv_target = 4521839205861347 / 9007199254740992,
              sv_speed = 4669332093657729 / 2305843009213693952\<rparr>
     + sv_speed \<lparr>sv_value = 1 / 2, sv_target = 4521839205861347 / 9007199254740992,
                 sv_speed = 4669332093657729 / 2305843009213693952\<rparr>
     < sv_target \<lparr>sv_value = 1 / 2, sv_target = 4521839205861347 / 9007199254740992,
                  sv_speed = 4669332093657729 / 2305843009213693952\<rparr>
   \<and> sv_value (fst (updateSentiment_rounded round_double ((!) [1 / 4, 3 / 4])
        \<lparr>sv_value = 1 / 2, sv_target = 4521839205861347 / 9007199254740992,
         sv_speed = 4669332093657729 / 2305843009213693952\<rparr> 0))
       = 4521839205861347 / 9007199254740992
   \<and> sv_target (fst (updateSentiment_rounded round_double ((!) [1 / 4, 3 / 4])
        \<lparr>sv_value = 1 / 2, sv_target = 4521839205861347 / 9007199254740992,
         sv_speed = 4669332093657729 / 2305843009213693952\<rparr> 0))
       = 1 / 4
   \<and> snd (updateSentiment_rounded round_double ((!) [1 / 4, 3 / 4])
        \<lparr>sv_value = 1 / 2, sv_target = 4521839205861347 / 9007199254740992,
         sv_speed = 4669332093657729 / 2305843009213693952\<rparr> 0)
       = 2"
proof -
  have "binade (Suc (Suc 2198)) (1157590836700504705 / 2305843009213693952) = - 1"
    by (subst binade.simps, subst binade.simps) simp
  then have e: "binade 2200 (1157590836700504705 / 2305843009213693952) = - 1"
    by simp
  have f: "\<lfloor>1157590836700504705 / 256 :: real\<rfloor> = 4521839205861346"
    by simp
  have h: "round_half_even (1157590836700504705 / 256) = 4521839205861347"
    by (simp add: round_half_even_def Let_def f)
  have r: "round_double (1157590836700504705 / 2305843009213693952)
             = 4521839205861347 / 9007199254740992"
    by (simp add: round_double_def Let_def e pow2_def h)
  have s: "(1 / 2 + 4669332093657729 / 2305843009213693952 :: real)
             = 1157590836700504705 / 2305843009213693952"
    by simp
  show ?thesis
    by (simp add: updateSentiment_rounded_def Let_def s r)
qed

text \<open>
  C5, amended. Below its target the value becomes the rounded sum of value and speed, above
  it the rounded difference, and target, speed and the random cursor are unchanged, unless
  that rounded result reaches or passes the target: then, and when the value is at the
  target already, the value becomes the target and a fresh target and a fresh speed are
  drawn. There is no other case, and a draw happens exactly when the new value is the old
  target. When rounding is monotone and leaves the value as it is, and the speed is not
  negative, the new value lies between the old value and the target.
\<close>

theorem updateSentiment_rounded_rule:
  "(sv_value sv < sv_target sv \<and> fl (sv_value sv + sv_speed sv) < sv_target sv \<longrightarrow>
      updateSentiment_rounded fl rnd sv k =
        (sv\<lparr>sv_value := fl (sv_value sv + sv_speed sv)\<rparr>, k))
   \<and> (sv_value sv < sv_target sv \<and> sv_target sv \<le> fl (sv_value sv + sv_speed sv) \<longrightarrow>
      updateSentiment_rounded fl rnd sv k =
        (\<lparr>sv_value = sv_target sv, sv_target = rnd k,
          sv_speed = fl (fl (rnd (k + 1) * fl 0.005) + fl 0.002)\<rparr>, k + 2))
   \<and> (sv_target sv < sv_value sv \<and> sv_target sv < fl (sv_value sv - sv_speed sv) \<longrightarrow>
      updateSentiment_rounded fl rnd sv k =
        (sv\<lparr>sv_value := fl (sv_value sv - sv_speed sv)\<rparr>, k))
   \<and> (sv_target sv < sv_value sv \<and> fl (sv_value sv - sv_speed sv) \<le> sv_target sv \<longrightarrow>
      updateSentiment_rounded fl rnd sv k =
        (\<lparr>sv_value = sv_target sv, sv_target = rnd k,
          sv_speed = fl (fl (rnd (k + 1) * fl 0.005) + fl 0.002)\<rparr>, k + 2))
   \<and> (sv_value sv = sv_target sv \<longrightarrow>
      updateSentiment_rounded fl rnd sv k =
        (\<lparr>sv_value = sv_target sv, sv_target = rnd k,
          sv_speed = fl (fl (rnd (k + 1) * fl 0.005) + fl 0.002)\<rparr>, k + 2))
   \<and> (sv_value (fst (updateSentiment_rounded fl rnd sv k)) = sv_target sv \<longleftrightarrow>
        snd (updateSentiment_rounded fl rnd sv k) = k + 2)
   \<and> ((\<forall>a b. a \<le> b \<longrightarrow> fl a \<le> fl b) \<and> fl (sv_value sv) = sv_value sv \<and> 0 \<le> sv_speed sv \<longrightarrow>
        min (sv_value sv) (sv_target sv) \<le> sv_value (fst (updateSentiment_rounded fl rnd sv k)) \<and>
        sv_value (fst (updateSentiment_rounded fl rnd sv k)) \<le> max (sv_value sv) (sv_target sv))
   \<and> updateSentiment_rounded (\<lambda>x. x) rnd sv k = updateSentiment rnd sv k"
proof -
  have m: "min (sv_value sv) (sv_target sv) \<le> sv_value (fst (updateSentiment_rounded fl rnd sv k)) \<and>
        sv_value (fst (updateSentiment_rounded fl rnd sv k)) \<le> max (sv_value sv) (sv_target sv)"
    if mono: "\<forall>a b. a \<le> b \<longrightarrow> fl a \<le> fl b" and same: "fl (sv_value sv) = sv_value sv"
      and sp: "0 \<le> sv_speed sv"
  proof -
    have up: "sv_value sv \<le> fl (sv_value sv + sv_speed sv)"
      using mono [rule_format, of "sv_value sv" "sv_value sv + sv_speed sv"] same sp by simp
    have down: "fl (sv_value sv - sv_speed sv) \<le> sv_value sv"
      using mono [rule_format, of "sv_value sv - sv_speed sv" "sv_value sv"] same sp by simp
    show ?thesis
      using up down by (auto simp: updateSentiment_rounded_def Let_def)
  qed
  have rest: "(sv_value sv < sv_target sv \<and> fl (sv_value sv + sv_speed sv) < sv_target sv \<longrightarrow>
      updateSentiment_rounded fl rnd sv k =
        (sv\<lparr>sv_value := fl (sv_value sv + sv_speed sv)\<rparr>, k))
   \<and> (sv_value sv < sv_target sv \<and> sv_target sv \<le> fl (sv_value sv + sv_speed sv) \<longrightarrow>
      updateSentiment_rounded fl rnd sv k =
        (\<lparr>sv_value = sv_target sv, sv_target = rnd k,
          sv_speed = fl (fl (rnd (k + 1) * fl 0.005) + fl 0.002)\<rparr>, k + 2))
   \<and> (sv_target sv < sv_value sv \<and> sv_target sv < fl (sv_value sv - sv_speed sv) \<longrightarrow>
      updateSentiment_rounded fl rnd sv k =
        (sv\<lparr>sv_value := fl (sv_value sv - sv_speed sv)\<rparr>, k))
   \<and> (sv_target sv < sv_value sv \<and> fl (sv_value sv - sv_speed sv) \<le> sv_target sv \<longrightarrow>
      updateSentiment_rounded fl rnd sv k =
        (\<lparr>sv_value = sv_target sv, sv_target = rnd k,
          sv_speed = fl (fl (rnd (k + 1) * fl 0.005) + fl 0.002)\<rparr>, k + 2))
   \<and> (sv_value sv = sv_target sv \<longrightarrow>
      updateSentiment_rounded fl rnd sv k =
        (\<lparr>sv_value = sv_target sv, sv_target = rnd k,
          sv_speed = fl (fl (rnd (k + 1) * fl 0.005) + fl 0.002)\<rparr>, k + 2))
   \<and> (sv_value (fst (updateSentiment_rounded fl rnd sv k)) = sv_target sv \<longleftrightarrow>
        snd (updateSentiment_rounded fl rnd sv k) = k + 2)"
    by (auto simp: updateSentiment_rounded_def Let_def)
  have ex: "updateSentiment_rounded (\<lambda>x. x) rnd sv k = updateSentiment rnd sv k"
    by (simp add: updateSentiment_rounded_def updateSentiment_def)
  show ?thesis
    using m rest ex by blast
qed

theorem updateSentiment_rounded_rule_witness:
  "updateSentiment_rounded (\<lambda>x. x) (\<lambda>n. 1 / 2)
       \<lparr>sv_value = 1 / 2, sv_target = 9 / 10, sv_speed = 1 / 10\<rparr> 0
     = (\<lparr>sv_value = 6 / 10, sv_target = 9 / 10, sv_speed = 1 / 10\<rparr>, 0)
   \<and> updateSentiment_rounded (\<lambda>x. x) (\<lambda>n. 1 / 2)
       \<lparr>sv_value = 17 / 20, sv_target = 9 / 10, sv_speed = 1 / 10\<rparr> 0
     = (\<lparr>sv_value = 9 / 10, sv_target = 1 / 2, sv_speed = 1 / 2 * 0.005 + 0.002\<rparr>, 2)
   \<and> updateSentiment_rounded (\<lambda>x. x) (\<lambda>n. 1 / 2)
       \<lparr>sv_value = 9 / 10, sv_target = 1 / 2, sv_speed = 1 / 10\<rparr> 0
     = (\<lparr>sv_value = 8 / 10, sv_target = 1 / 2, sv_speed = 1 / 10\<rparr>, 0)
   \<and> updateSentiment_rounded (\<lambda>x. x) (\<lambda>n. 1 / 2)
       \<lparr>sv_value = 11 / 20, sv_target = 1 / 2, sv_speed = 1 / 10\<rparr> 0
     = (\<lparr>sv_value = 1 / 2, sv_target = 1 / 2, sv_speed = 1 / 2 * 0.005 + 0.002\<rparr>, 2)
   \<and> updateSentiment_rounded (\<lambda>x. x) (\<lambda>n. 1 / 2)
       \<lparr>sv_value = 1 / 4, sv_target = 1 / 4, sv_speed = 1 / 10\<rparr> 0
     = (\<lparr>sv_value = 1 / 4, sv_target = 1 / 2, sv_speed = 1 / 2 * 0.005 + 0.002\<rparr>, 2)
   \<and> 1 / 2 \<le> sv_value (fst (updateSentiment_rounded (\<lambda>x. x) (\<lambda>n. 1 / 2)
                 \<lparr>sv_value = 1 / 2, sv_target = 9 / 10, sv_speed = 1 / 10\<rparr> 0))
   \<and> sv_value (fst (updateSentiment_rounded (\<lambda>x. x) (\<lambda>n. 1 / 2)
                 \<lparr>sv_value = 1 / 2, sv_target = 9 / 10, sv_speed = 1 / 10\<rparr> 0)) \<le> 9 / 10"
  using updateSentiment_rounded_rule
          [of "\<lparr>sv_value = 1 / 2, sv_target = 9 / 10, sv_speed = 1 / 10\<rparr>" "\<lambda>x. x" "\<lambda>n. 1 / 2" 0]
        updateSentiment_rounded_rule
          [of "\<lparr>sv_value = 17 / 20, sv_target = 9 / 10, sv_speed = 1 / 10\<rparr>" "\<lambda>x. x" "\<lambda>n. 1 / 2" 0]
        updateSentiment_rounded_rule
          [of "\<lparr>sv_value = 9 / 10, sv_target = 1 / 2, sv_speed = 1 / 10\<rparr>" "\<lambda>x. x" "\<lambda>n. 1 / 2" 0]
        updateSentiment_rounded_rule
          [of "\<lparr>sv_value = 11 / 20, sv_target = 1 / 2, sv_speed = 1 / 10\<rparr>" "\<lambda>x. x" "\<lambda>n. 1 / 2" 0]
        updateSentiment_rounded_rule
          [of "\<lparr>sv_value = 1 / 4, sv_target = 1 / 4, sv_speed = 1 / 10\<rparr>" "\<lambda>x. x" "\<lambda>n. 1 / 2" 0]
  by simp

subsection \<open>The unit interval is invariant\<close>

lemma updateSentiment_between:
  assumes "0 \<le> sv_speed sv"
  shows "min (sv_value sv) (sv_target sv) \<le> sv_value (fst (updateSentiment rnd sv k))
       \<and> sv_value (fst (updateSentiment rnd sv k)) \<le> max (sv_value sv) (sv_target sv)"
  using assms by (auto simp: updateSentiment_def Let_def split: if_splits)

lemma updateSentiment_in_unit:
  assumes "\<forall>n. 0 \<le> rnd n \<and> rnd n < 1" "in_unit sv"
  shows "in_unit (fst (updateSentiment rnd sv k))"
proof -
  have r: "0 \<le> rnd n" "rnd n \<le> 1" for n
    using assms(1) by (auto simp: less_imp_le)
  have s: "0 \<le> rnd (k + 1) * 0.005 + 0.002"
    using r(1) [of "k + 1"] by simp
  show ?thesis
    using assms(2) r s by (auto simp: updateSentiment_def Let_def in_unit_def)
qed

lemma animate_segment_in_unit:
  assumes "\<forall>n. 0 \<le> rnd n \<and> rnd n < 1" "segment_in_unit seg"
  shows "segment_in_unit (fst (animate_segment rnd seg k))"
proof (cases "locked seg")
  case True
  then show ?thesis using assms(2) by (simp add: animate_segment_def)
next
  case False
  obtain v k1 where v: "updateSentiment rnd (seg_valence seg) k = (v, k1)" by force
  obtain a k2 where a: "updateSentiment rnd (seg_arousal seg) k1 = (a, k2)" by force
  obtain d k3 where d: "updateSentiment rnd (seg_dominance seg) k2 = (d, k3)" by force
  have "in_unit v" "in_unit a" "in_unit d"
    using updateSentiment_in_unit [OF assms(1), of "seg_valence seg" k]
          updateSentiment_in_unit [OF assms(1), of "seg_arousal seg" k1]
          updateSentiment_in_unit [OF assms(1), of "seg_dominance seg" k2]
          assms(2) v a d
    by (simp_all add: segment_in_unit_def)
  then show ?thesis
    using False v a d by (simp add: animate_segment_def segment_in_unit_def)
qed

lemma animate_in_unit:
  assumes "\<forall>n. 0 \<le> rnd n \<and> rnd n < 1"
  shows "list_all segment_in_unit segs \<Longrightarrow> list_all segment_in_unit (fst (animate rnd segs k))"
proof (induction segs arbitrary: k)
  case Nil
  then show ?case by simp
next
  case (Cons seg segs)
  obtain seg' k1 where s: "animate_segment rnd seg k = (seg', k1)" by force
  obtain segs' k2 where t: "animate rnd segs k1 = (segs', k2)" by force
  have "segment_in_unit seg'"
    using animate_segment_in_unit [OF assms, of seg k] Cons.prems s by simp
  moreover have "list_all segment_in_unit segs'"
    using Cons.IH [of k1] Cons.prems t by simp
  ultimately show ?case using s t by simp
qed

lemma lock_segment_in_unit: "segment_in_unit seg \<Longrightarrow> segment_in_unit (lock_segment seg)"
  by (simp add: segment_in_unit_def lock_segment_def lock_sentiment_def in_unit_def)

lemma lock_at_nth:
  "i < length segs \<Longrightarrow>
     lock_at c segs ! i = (if i = c then lock_segment (segs ! i) else segs ! i)"
  by (simp add: lock_at_def nth_enumerate_eq)

lemma length_lock_at [simp]: "length (lock_at c segs) = length segs"
  by (simp add: lock_at_def)


lemma lock_at_in_unit:
  "list_all segment_in_unit segs \<Longrightarrow> list_all segment_in_unit (lock_at c segs)"
  by (auto simp: list_all_length lock_at_nth lock_segment_in_unit)

lemma initial_segments_in_unit:
  assumes "\<forall>n. 0 \<le> rnd n \<and> rnd n < 1"
  shows "list_all segment_in_unit (initial_segments rnd)"
proof -
  have r: "0 \<le> rnd n" "rnd n \<le> 1" for n
    using assms by (auto simp: less_imp_le)
  have "in_unit (initial_sentiment rnd k)" for k
    using r(1) [of k] r(2) [of k] r(1) [of "k + 1"] r(2) [of "k + 1"] r(1) [of "k + 2"]
    by (simp add: in_unit_def initial_sentiment_def)
  then have "segment_in_unit (initial_segment rnd i)" for i
    by (simp add: segment_in_unit_def initial_segment_def)
  then show ?thesis
    by (simp add: initial_segments_def list_all_iff)
qed

lemma sim_step_in_unit:
  assumes "\<forall>n. 0 \<le> rnd n \<and> rnd n < 1" "list_all segment_in_unit (sim_segments s)"
  shows "list_all segment_in_unit (sim_segments (sim_step rnd e s))"
proof (cases e)
  case (SimFileUpload files url)
  then show ?thesis using assms(2)
    by (auto simp: sim_handleFileUpload_def split: option.splits list.splits)
next
  case (SimRecorded url)
  then show ?thesis using assms(2) by (simp add: sim_onstop_def)
next
  case (SimFire k t)
  then show ?thesis using assms(2) lock_at_in_unit [of "sim_segments s"]
    by (auto simp: sim_fire_def startProcessing_def startProcessing_tick_def Let_def
        split: option.splits sim_task.splits)
next
  case SimFrame
  obtain segs' k' where a: "animate rnd (sim_segments s) (cursor s) = (segs', k')" by force
  then have "list_all segment_in_unit segs'"
    using animate_in_unit [OF assms(1) assms(2), of "cursor s"] by simp
  then show ?thesis using SimFrame assms(2) a by (simp add: sim_frame_def)
qed

lemma sim_run_in_unit:
  assumes "\<forall>n. 0 \<le> rnd n \<and> rnd n < 1"
  shows "list_all segment_in_unit (sim_segments s) \<Longrightarrow>
         list_all segment_in_unit (sim_segments (sim_run rnd es s))"
  by (induction es arbitrary: s) (simp_all add: sim_step_in_unit [OF assms])

text \<open>
  C6. When every number drawn lies in [0,1), then after any sequence of uploads, recordings,
  timer callbacks and animation frames from the initial state, the valence, arousal and
  dominance values of every segment lie in [0,1]. And one run of \<open>updateSentiment\<close> on a
  walk whose speed is not negative yields a value between the old value and the target.
\<close>

theorem values_stay_in_unit_interval:
  assumes "\<forall>n. 0 \<le> rnd n \<and> rnd n < 1"
  shows "(\<forall>seg \<in> set (sim_segments (sim_run rnd es (Sim_init rnd))).
            0 \<le> sv_value (seg_valence seg) \<and> sv_value (seg_valence seg) \<le> 1 \<and>
            0 \<le> sv_value (seg_arousal seg) \<and> sv_value (seg_arousal seg) \<le> 1 \<and>
            0 \<le> sv_value (seg_dominance seg) \<and> sv_value (seg_dominance seg) \<le> 1)
       \<and> (0 \<le> sv_speed sv \<longrightarrow>
            min (sv_value sv) (sv_target sv) \<le> sv_value (fst (updateSentiment rnd sv k)) \<and>
            sv_value (fst (updateSentiment rnd sv k)) \<le> max (sv_value sv) (sv_target sv))"
proof -
  have "list_all segment_in_unit (sim_segments (Sim_init rnd))"
    using initial_segments_in_unit [OF assms] by (simp add: Sim_init_def)
  then have "list_all segment_in_unit (sim_segments (sim_run rnd es (Sim_init rnd)))"
    by (rule sim_run_in_unit [OF assms])
  then show ?thesis
    using updateSentiment_between [of sv rnd k]
    by (simp add: list_all_iff segment_in_unit_def in_unit_def)
qed

theorem values_stay_in_unit_interval_witness:
  "(\<forall>n::nat. (0::real) \<le> 1 / 2 \<and> (1 / 2 :: real) < 1)
   \<and> list_all
        (\<lambda>seg. 0 \<le> sv_value (seg_valence seg) \<and> sv_value (seg_valence seg) \<le> 1 \<and>
               0 \<le> sv_value (seg_arousal seg) \<and> sv_value (seg_arousal seg) \<le> 1 \<and>
               0 \<le> sv_value (seg_dominance seg) \<and> sv_value (seg_dominance seg) \<le> 1)
        (sim_segments (sim_run (\<lambda>n. 1 / 2)
           [SimRecorded ''blob:1'', SimFire 0 AtCall, SimFrame, SimFire 0 AtRender, SimFrame]
           (Sim_init (\<lambda>n. 1 / 2))))
   \<and> 0 \<le> sv_speed \<lparr>sv_value = 1 / 4, sv_target = 3 / 4, sv_speed = 1 / 10\<rparr>
   \<and> 1 / 4 \<le> sv_value (fst (updateSentiment (\<lambda>n. 1 / 2)
                 \<lparr>sv_value = 1 / 4, sv_target = 3 / 4, sv_speed = 1 / 10\<rparr> 0))
   \<and> sv_value (fst (updateSentiment (\<lambda>n. 1 / 2)
                 \<lparr>sv_value = 1 / 4, sv_target = 3 / 4, sv_speed = 1 / 10\<rparr> 0)) \<le> 3 / 4"
  using values_stay_in_unit_interval
          [of "\<lambda>n. 1 / 2" "[SimRecorded ''blob:1'', SimFire 0 AtCall, SimFrame, SimFire 0 AtRender, SimFrame]"
              "\<lparr>sv_value = 1 / 4, sv_target = 3 / 4, sv_speed = 1 / 10\<rparr>" 0]
  by (simp add: list_all_iff)

subsection \<open>Locked segments\<close>

lemma length_animate [simp]: "length (fst (animate rnd segs k)) = length segs"
proof (induction segs arbitrary: k)
  case Nil
  then show ?case by simp
next
  case (Cons seg segs)
  obtain seg' k1 where s: "animate_segment rnd seg k = (seg', k1)" by force
  obtain segs' k2 where t: "animate rnd segs k1 = (segs', k2)" by force
  have "length segs' = length segs" using Cons.IH [of k1] t by simp
  then show ?case using s t by simp
qed


lemma shown_lock_segment [simp]: "shown (lock_segment seg) = shown seg"
  by (simp add: shown_def lock_segment_def lock_sentiment_def)

lemma locked_lock_segment [simp]: "locked (lock_segment seg)"
  by (simp add: lock_segment_def)

lemma length_sim_step [simp]:
  "length (sim_segments (sim_step rnd e s)) = length (sim_segments s)"
proof (cases e)
  case (SimFileUpload files url)
  then show ?thesis by (auto simp: sim_handleFileUpload_def split: option.splits list.splits)
next
  case (SimRecorded url)
  then show ?thesis by (simp add: sim_onstop_def)
next
  case (SimFire k t)
  then show ?thesis
    by (auto simp: sim_fire_def startProcessing_def startProcessing_tick_def Let_def
        split: option.splits sim_task.splits)
next
  case SimFrame
  obtain segs' k' where a: "animate rnd (sim_segments s) (cursor s) = (segs', k')" by force
  then have "length segs' = length (sim_segments s)"
    using length_animate [of rnd "sim_segments s" "cursor s"] by simp
  then show ?thesis using SimFrame a by (simp add: sim_frame_def)
qed





section \<open>Facts about the smooth closed path\<close>

lemma loop_eq:
  "i \<le> length points \<Longrightarrow>
     generateSmoothPath_loop fmt points i path =
       path @ concat (map (curve_piece fmt points) [i..<length points])"
proof (induction fmt points i path rule: generateSmoothPath_loop.induct)
  case (1 fmt points i path)
  show ?case
  proof (cases "i < length points")
    case True
    then have "generateSmoothPath_loop fmt points (i + 1) (path @ curve_piece fmt points i) =
        (path @ curve_piece fmt points i) @ concat (map (curve_piece fmt points) [i + 1..<length points])"
      using "1.IH" by simp
    then show ?thesis
      using True by (subst generateSmoothPath_loop.simps) (simp add: upt_conv_Cons)
  next
    case False
    then show ?thesis
      using "1.prems" by (subst generateSmoothPath_loop.simps) simp
  qed
qed

lemma curve_piece_cubic:
  assumes "i < length points"
  shows "curve_piece fmt points i = cubic_command fmt points i"
proof -
  have a: "(if i = 0 then length points - 1 else i - 1) = (i + length points - 1) mod length points"
  proof (cases i)
    case 0
    then show ?thesis using assms by simp
  next
    case (Suc j)
    then have "(i + length points - 1) mod length points = (j + length points) mod length points"
      by simp
    also have "\<dots> = j" using Suc assms by simp
    finally show ?thesis using Suc by simp
  qed
  have b: "i mod length points = i" using assms by simp
  show ?thesis
    unfolding curve_piece_def cubic_command_def cyclic_def Let_def a b ..
qed

lemma count_concat:
  "(\<And>i. i \<in> set js \<Longrightarrow> count_list (f i) c = 1) \<Longrightarrow>
     count_list (concat (map f js)) c = length js"
  by (induction js) simp_all

lemma count_cubic_command:
  assumes "\<forall>v. CHR ''C'' \<notin> set (fmt v)"
  shows "count_list (cubic_command fmt points i) CHR ''C'' = 1"
  using assms by (simp add: cubic_command_def Let_def)

text \<open>
  C8. For fewer than two points \<open>generateSmoothPath\<close> returns the empty string. For
  \<open>n \<ge> 2\<close> points it returns \<open>M x0 y0\<close> for the first point, then for each index
  \<open>0, \<dots>, n - 1\<close> one \<open>C\<close> command whose control points are
  \<open>p1 + (p2 - p0) * 0.2\<close> and \<open>p2 - (p3 - p1) * 0.2\<close> over the cyclically indexed
  points, then \<open>Z\<close>. So the path starts with the move to the first point and ends with
  \<open>Z\<close>; and when the conversion of numbers to text never yields the letter \<open>C\<close>, the
  path contains exactly \<open>n\<close> of them.
\<close>

theorem generateSmoothPath_closed_curve:
  "(length points < 2 \<longrightarrow> generateSmoothPath fmt points = [])
   \<and> (2 \<le> length points \<longrightarrow>
        generateSmoothPath fmt points =
          ''M '' @ fmt (px (points ! 0)) @ '' '' @ fmt (py (points ! 0))
            @ concat (map (cubic_command fmt points) [0..<length points]) @ '' Z''
        \<and> prefix (''M '' @ fmt (px (points ! 0)) @ '' '' @ fmt (py (points ! 0)))
             (generateSmoothPath fmt points)
        \<and> suffix '' Z'' (generateSmoothPath fmt points)
        \<and> ((\<forall>v. CHR ''C'' \<notin> set (fmt v)) \<longrightarrow>
             count_list (generateSmoothPath fmt points) CHR ''C'' = length points))"
proof -
  have m: "map (curve_piece fmt points) [0..<length points] =
           map (cubic_command fmt points) [0..<length points]"
    by (rule map_cong) (simp_all add: curve_piece_cubic)
  have e: "2 \<le> length points \<Longrightarrow>
        generateSmoothPath fmt points =
          ''M '' @ fmt (px (points ! 0)) @ '' '' @ fmt (py (points ! 0))
            @ concat (map (cubic_command fmt points) [0..<length points]) @ '' Z''"
    by (simp add: generateSmoothPath_def loop_eq m)
  have p: "2 \<le> length points \<Longrightarrow>
        prefix (''M '' @ fmt (px (points ! 0)) @ '' '' @ fmt (py (points ! 0)))
          (generateSmoothPath fmt points)"
    by (simp add: e)
  have s: "2 \<le> length points \<Longrightarrow> suffix '' Z'' (generateSmoothPath fmt points)"
    by (rule suffixI [where zs = "generateSmoothPath_loop fmt points 0
          (''M '' @ fmt (px (points ! 0)) @ '' '' @ fmt (py (points ! 0)))"])
       (simp add: generateSmoothPath_def)
  have c: "count_list (concat (map (cubic_command fmt points) [0..<length points])) CHR ''C''
             = length points"
    if "\<forall>v. CHR ''C'' \<notin> set (fmt v)"
    using count_concat [of "[0..<length points]" "cubic_command fmt points" "CHR ''C''"]
          count_cubic_command [OF that] by simp
  have n: "2 \<le> length points \<Longrightarrow> \<forall>v. CHR ''C'' \<notin> set (fmt v) \<Longrightarrow>
             count_list (generateSmoothPath fmt points) CHR ''C'' = length points"
    using c by (simp add: e)
  have z: "length points < 2 \<Longrightarrow> generateSmoothPath fmt points = []"
    by (simp add: generateSmoothPath_def)
  show ?thesis
    using e p s n z by blast
qed

theorem generateSmoothPath_closed_curve_witness:
  "length [\<lparr>px = 0, py = 0\<rparr>] < 2
   \<and> generateSmoothPath (\<lambda>v. if v < 0 then ''-'' else ''+'') [\<lparr>px = 0, py = 0\<rparr>] = []
   \<and> 2 \<le> length [\<lparr>px = 0, py = 0\<rparr>, \<lparr>px = 10, py = 5\<rparr>]
   \<and> (\<forall>v::real. CHR ''C'' \<notin> set (if v < 0 then ''-'' else ''+''))
   \<and> count_list (generateSmoothPath (\<lambda>v. if v < 0 then ''-'' else ''+'')
         [\<lparr>px = 0, py = 0\<rparr>, \<lparr>px = 10, py = 5\<rparr>]) CHR ''C'' = 2"
proof -
  have h: "\<forall>v::real. CHR ''C'' \<notin> set (if v < 0 then ''-'' else ''+'')"
    by simp
  have "generateSmoothPath (\<lambda>v. if v < 0 then ''-'' else ''+'') [\<lparr>px = 0, py = 0\<rparr>] = []"
    using generateSmoothPath_closed_curve
            [of "[\<lparr>px = 0, py = 0\<rparr>]" "\<lambda>v. if v < 0 then ''-'' else ''+''"]
    by simp
  moreover have "count_list (generateSmoothPath (\<lambda>v. if v < 0 then ''-'' else ''+'')
         [\<lparr>px = 0, py = 0\<rparr>, \<lparr>px = 10, py = 5\<rparr>]) CHR ''C'' = 2"
  proof -
    have "2 \<le> length [\<lparr>px = 0, py = 0\<rparr>, \<lparr>px = 10, py = 5\<rparr>]"
      by simp
    with generateSmoothPath_closed_curve
            [of "[\<lparr>px = 0, py = 0\<rparr>, \<lparr>px = 10, py = 5\<rparr>]"
                "\<lambda>v. if v < 0 then ''-'' else ''+''"]
    have "(\<forall>v::real. CHR ''C'' \<notin> set (if v < 0 then ''-'' else ''+'')) \<longrightarrow>
          count_list (generateSmoothPath (\<lambda>v. if v < 0 then ''-'' else ''+'')
            [\<lparr>px = 0, py = 0\<rparr>, \<lparr>px = 10, py = 5\<rparr>]) CHR ''C''
          = length [\<lparr>px = 0, py = 0\<rparr>, \<lparr>px = 10, py = 5\<rparr>]"
      by blast
    with h show ?thesis by simp
  qed
  ultimately show ?thesis using h by simp
qed

section \<open>Facts about microphone capture\<close>

text \<open>
  C7, at a modal that is closed while its request for the microphone is still pending: the
  cleanup runs while the ref holds no stream and stops nothing, the stream the browser then
  hands over is stored and recorded from, and its track stays live whatever happens next.
  When the browser answers before the modal is closed, closing the modal stops the track,
  and so does the stop button.
\<close>

theorem modal_closed_while_pending_leaks:
  "live_tracks (snd (modal_run [StartClicked, ModalClosed, MediaAnswered (Granted 1)]
      (RecordModal_init, []))) = 1
   \<and> live_tracks (snd (modal_run
      [StartClicked, ModalClosed, MediaAnswered (Granted 1), StopClicked, ModalClosed]
      (RecordModal_init, []))) = 1
   \<and> live_tracks (snd (modal_run [StartClicked, MediaAnswered (Granted 1), ModalClosed]
      (RecordModal_init, []))) = 0
   \<and> live_tracks (snd (modal_run [StartClicked, MediaAnswered (Granted 1), StopClicked]
      (RecordModal_init, []))) = 0"
  by (simp add: live_tracks_def RecordModal_init_def startRecording_call_def
      startRecording_resume_def stopRecording_def RecordModal_unmount_def stop_tracks_def)

end
